theory Spec2Isabelle
  imports Main "HOL-Library.AList" "HOL-Library.Word"
begin

section \<open>Values, element types and errors\<close>

text \<open>
  The module \<^verbatim>\<open>sliderule/io.py\<close> moves a GeoDataFrame to and from netCDF-3 and HDF5
  files. Numbers are modelled by their exact values: an integer as an \<open>int\<close>, a finite
  binary floating point number as a mantissa and a binary exponent (\<open>Flt m e\<close> stands
  for \<open>m * 2 ^ e\<close>). NaN, infinities and exponent overflow are outside the model.
\<close>

datatype flt = Flt (mant: int) (expo: int)

datatype val = IntV int | FltV flt

datatype dtype =
    UInt8 | UInt16 | UInt32 | UInt64
  | Int8 | Int16 | Int32 | Int64
  | Float32 | Float64
  | DateTime64

text \<open>\<^verbatim>\<open>np.issubdtype(val, np.unsignedinteger)\<close>\<close>

fun is_unsigned :: "dtype \<Rightarrow> bool" where
  "is_unsigned UInt8 = True"
| "is_unsigned UInt16 = True"
| "is_unsigned UInt32 = True"
| "is_unsigned UInt64 = True"
| "is_unsigned _ = False"

text \<open>A pandas Series or numpy array of one dimension: element type and elements.\<close>

datatype column = Column (ctype: dtype) (cvals: "val list")

text \<open>The exceptions the module can raise, by Python class; KeyError carries the key.\<close>

datatype error = KeyError string | AttributeError | TypeError | ValueError

subsection \<open>Floating point arithmetic\<close>

text \<open>Python's \<^verbatim>\<open>int.bit_length\<close>: the number of binary digits of a natural number.\<close>

fun bit_length :: "nat \<Rightarrow> nat" where
  "bit_length n = (if n = 0 then 0 else Suc (bit_length (n div 2)))"

declare bit_length.simps [simp del]

text \<open>Dropping the low \<open>k\<close> bits of a mantissa, rounding to nearest, ties to even.\<close>

definition rne_shift :: "int \<Rightarrow> nat \<Rightarrow> int" where
  "rne_shift m k =
     (if k = 0 then m
      else let q = m div 2 ^ k; r = m mod 2 ^ k; h = 2 ^ (k - 1)
           in if h < r \<or> (r = h \<and> odd q) then q + 1 else q)"

text \<open>Rounding to a significand of \<open>p\<close> bits (53 for float64, 24 for float32).\<close>

definition round_sig :: "nat \<Rightarrow> flt \<Rightarrow> flt" where
  "round_sig p x =
     (let k = bit_length (nat \<bar>mant x\<bar>) - p
      in Flt (rne_shift (mant x) k) (expo x + int k))"

definition fmul :: "nat \<Rightarrow> flt \<Rightarrow> flt \<Rightarrow> flt" where
  "fmul p x y = round_sig p (Flt (mant x * mant y) (expo x + expo y))"

text \<open>Conversion of a float to an integer truncates toward zero.\<close>

definition ftrunc :: "flt \<Rightarrow> int" where
  "ftrunc x =
     (if 0 \<le> expo x then mant x * 2 ^ nat (expo x)
      else sgn (mant x) * (\<bar>mant x\<bar> div 2 ^ nat (- expo x)))"

text \<open>
  \<^verbatim>\<open>np.asarray(x, dtype="float64")\<close> on one element, and the assignment of a
  Python number into a float64 array: an integer is rounded to 53 bits, a float is kept
  (widening float32 to float64 is exact).
\<close>

fun as_float64 :: "val \<Rightarrow> flt" where
  "as_float64 (IntV n) = round_sig 53 (Flt n 0)"
| "as_float64 (FltV x) = x"

text \<open>\<^verbatim>\<open>astype(np.int32)\<close> on one element: the low 32 bits, read as signed.\<close>

fun astype_int32 :: "val \<Rightarrow> val" where
  "astype_int32 (IntV n) = IntV (sint (word_of_int n :: 32 word))"
| "astype_int32 (FltV x) = IntV (sint (word_of_int (ftrunc x) :: 32 word))"

section \<open>The attribute schema\<close>

text \<open>
  Values that can be stored as attributes or passed as processing parameters: a string,
  a number, a sequence of numbers, a sequence of strings, and Python's \<^verbatim>\<open>None\<close>.
\<close>

datatype attr_value =
    Text string
  | Number val
  | Numbers "val list"
  | Texts "string list"
  | NoneValue

text \<open>
  \<^verbatim>\<open>get_attributes\<close> returns one dictionary holding file level strings and, under the
  variable names, dictionaries of variable attributes. Dictionaries are association
  lists in insertion order. The creation date is \<^verbatim>\<open>datetime.datetime.now().isoformat()\<close>
  and is passed in as \<open>now\<close>.
\<close>

datatype schema_item = FileAttr attr_value | VarAttrs "(string \<times> attr_value) list"

type_synonym attributes = "(string \<times> schema_item) list"

definition get_attributes :: "string \<Rightarrow> attributes" where
  "get_attributes now =
   [(''featureType'', FileAttr (Text ''trajectory'')),
    (''title'', FileAttr (Text ''ATLAS/ICESat-2 SlideRule Height'')),
    (''reference'', FileAttr (Text ''https://doi.org/10.5281/zenodo.5484048'')),
    (''date_created'', FileAttr (Text now)),
    (''geospatial_lat_units'', FileAttr (Text ''degrees_north'')),
    (''geospatial_lon_units'', FileAttr (Text ''degrees_east'')),
    (''geospatial_ellipsoid'', FileAttr (Text ''WGS84'')),
    (''date_type'', FileAttr (Text ''UTC'')),
    (''time_type'', FileAttr (Text ''CCSDS UTC-A'')),
    (''segment_id'', VarAttrs
      [(''long_name'', Text ''Along-track segment ID number''),
       (''coordinates'', Text ''latitude longitude'')]),
    (''delta_time'', VarAttrs
      [(''units'', Text ''seconds since 2018-01-01''),
       (''long_name'', Text ''Elapsed GPS seconds''),
       (''standard_name'', Text ''time''),
       (''calendar'', Text ''standard''),
       (''coordinates'', Text ''latitude longitude'')]),
    (''latitude'', VarAttrs
      [(''units'', Text ''degrees_north''),
       (''long_name'', Text ''Latitude''),
       (''standard_name'', Text ''latitude''),
       (''valid_min'', Number (FltV (Flt (- 90) 0))),
       (''valid_max'', Number (FltV (Flt 90 0)))]),
    (''longitude'', VarAttrs
      [(''units'', Text ''degrees_east''),
       (''long_name'', Text ''Longitude''),
       (''standard_name'', Text ''longitude''),
       (''valid_min'', Number (FltV (Flt (- 180) 0))),
       (''valid_max'', Number (FltV (Flt 180 0)))]),
    (''h_mean'', VarAttrs
      [(''units'', Text ''meters''),
       (''long_name'', Text ''Height Mean''),
       (''coordinates'', Text ''latitude longitude'')]),
    (''h_sigma'', VarAttrs
      [(''units'', Text ''meters''),
       (''long_name'', Text ''Height Error''),
       (''coordinates'', Text ''latitude longitude'')]),
    (''rms_misfit'', VarAttrs
      [(''units'', Text ''meters''),
       (''long_name'', Text ''RMS of fit''),
       (''coordinates'', Text ''latitude longitude'')]),
    (''dh_fit_dx'', VarAttrs
      [(''units'', Text ''meters/meters''),
       (''contentType'', Text ''modelResult''),
       (''long_name'', Text ''Along Track Slope''),
       (''coordinates'', Text ''latitude longitude'')]),
    (''dh_fit_dy'', VarAttrs
      [(''units'', Text ''meters/meters''),
       (''long_name'', Text ''Across Track Slope''),
       (''coordinates'', Text ''latitude longitude'')]),
    (''n_fit_photons'', VarAttrs
      [(''units'', Text ''1''),
       (''long_name'', Text ''Number of Photons in Fit''),
       (''coordinates'', Text ''latitude longitude'')]),
    (''w_surface_window_final'', VarAttrs
      [(''units'', Text ''meters''),
       (''long_name'', Text ''Surface Window Width''),
       (''coordinates'', Text ''latitude longitude'')]),
    (''h_robust_sprd'', VarAttrs
      [(''units'', Text ''meters''),
       (''long_name'', Text ''Robust Spread''),
       (''coordinates'', Text ''latitude longitude'')]),
    (''cycle'', VarAttrs
      [(''long_name'', Text ''Orbital cycle''),
       (''coordinates'', Text ''latitude longitude'')]),
    (''rgt'', VarAttrs
      [(''long_name'', Text ''Reference Ground Track''),
       (''coordinates'', Text ''latitude longitude'')]),
    (''gt'', VarAttrs
      [(''long_name'', Text ''Ground track identifier''),
       (''flag_values'', Numbers [IntV 10, IntV 20, IntV 30, IntV 40, IntV 50, IntV 60]),
       (''flag_meanings'', Text ''GT1L, GT1R, GT2L, GT2R, GT3L, GT3R''),
       (''valid_min'', Number (IntV 10)),
       (''valid_max'', Number (IntV 60))]),
    (''spot'', VarAttrs
      [(''long_name'', Text ''ATLAS spot number''),
       (''coordinates'', Text ''latitude longitude''),
       (''valid_min'', Number (IntV 1)),
       (''valid_max'', Number (IntV 6))]),
    (''pflags'', VarAttrs
      [(''long_name'', Text ''Processing Flags''),
       (''coordinates'', Text ''latitude longitude''),
       (''flag_values'', Numbers [IntV 0, IntV 1, IntV 2, IntV 4]),
       (''flag_meanings'',
          Text ''valid, spread too short, too few photons, max iterations reached''),
       (''valid_min'', Number (IntV 0)),
       (''valid_max'', Number (IntV 4))])]"

text \<open>
  Reading one key of a Python dictionary raises KeyError when the key is missing.
\<close>

definition getitem :: "(string \<times> 'a) list \<Rightarrow> string \<Rightarrow> error + 'a" where
  "getitem d k = (case map_of d k of None \<Rightarrow> Inl (KeyError k) | Some v \<Rightarrow> Inr v)"

text \<open>
  \<^verbatim>\<open>attributes[key].items()\<close>: a missing key raises KeyError; a file level entry is a
  string, which has no \<^verbatim>\<open>items\<close> method, so AttributeError.
\<close>

definition schema_items :: "attributes \<Rightarrow> string \<Rightarrow> error + (string \<times> attr_value) list" where
  "schema_items attrs key =
     (case map_of attrs key of
        None \<Rightarrow> Inl (KeyError key)
      | Some (FileAttr v) \<Rightarrow> Inl AttributeError
      | Some (VarAttrs kvs) \<Rightarrow> Inr kvs)"

text \<open>
  The flag meanings are one string, the meanings separated by a comma and a space.
  \<open>split_meanings\<close> cuts such a string into its meanings, to pair them with the flag
  values by position.
\<close>

fun split_meanings :: "string \<Rightarrow> string \<Rightarrow> string list" where
  "split_meanings acc [] = [rev acc]"
| "split_meanings acc [c] = [rev (c # acc)]"
| "split_meanings acc (c # d # cs) =
     (if c = CHR '','' \<and> d = CHR '' '' then rev acc # split_meanings [] cs
      else split_meanings (c # acc) (d # cs))"

definition flag_table :: "(string \<times> attr_value) list \<Rightarrow> (val \<times> string) list option" where
  "flag_table entry =
     (case (map_of entry ''flag_values'', map_of entry ''flag_meanings'') of
        (Some (Numbers vs), Some (Text ms)) \<Rightarrow> Some (zip vs (split_meanings [] ms))
      | _ \<Rightarrow> None)"

text \<open>The variable names the schema describes, as the specification lists them.\<close>

definition canonical_variables :: "string list" where
  "canonical_variables =
   [''segment_id'', ''delta_time'', ''latitude'', ''longitude'', ''h_mean'', ''h_sigma'',
    ''rms_misfit'', ''dh_fit_dx'', ''dh_fit_dy'', ''n_fit_photons'',
    ''w_surface_window_final'', ''h_robust_sprd'', ''cycle'', ''rgt'', ''gt'', ''spot'',
    ''pflags'']"

fun is_var_entry :: "schema_item option \<Rightarrow> bool" where
  "is_var_entry (Some (VarAttrs kvs)) = True"
| "is_var_entry _ = False"

section \<open>Tables, options and helper operations\<close>

text \<open>
  A GeoDataFrame: the row labels (timestamps in nanoseconds since 1970-01-01, or any
  other integer labels), the data columns in order, and the geometry column, one point
  \<open>(x, y)\<close> = (longitude, latitude) a row. pandas keeps all columns of one frame at the
  length of the index; \<open>wf_table\<close> states that invariant together with the uniqueness
  of the column labels.
\<close>

record table =
  index :: "int list"
  columns :: "(string \<times> column) list"
  geometry :: "(flt \<times> flt) list"

record frame =
  findex :: "int list"
  fcolumns :: "(string \<times> column) list"

definition wf_table :: "table \<Rightarrow> bool" where
  "wf_table gdf \<longleftrightarrow>
     distinct (map fst (columns gdf))
     \<and> length (geometry gdf) = length (index gdf)
     \<and> list_all (\<lambda>kc. length (cvals (snd kc)) = length (index gdf)) (columns gdf)"

text \<open>
  The keyword arguments of the public operations. \<^verbatim>\<open>kwargs.setdefault\<close> supplies
  \<^verbatim>\<open>'pytables'\<close> for a missing driver, \<^verbatim>\<open>None\<close> for missing parameters and the empty
  list for missing regions. The option \<^verbatim>\<open>verbose\<close> only prints and is left out.
  A region is a list of polygons, a polygon a list of points, a point a dictionary.
\<close>

type_synonym point = "(string \<times> val) list"

record kwargs =
  driver :: "string option"
  parameters :: "(string \<times> attr_value) list option"
  regions :: "point list list"

text \<open>
  Both writers start alike: \<^verbatim>\<open>df = DataFrame(gdf.drop(columns='geometry'))\<close>, then
  \<^verbatim>\<open>df['latitude'] = gdf['geometry'].values.y\<close> and the same for the longitude. An
  assignment to an existing label replaces that column in place, a new label is
  appended.
\<close>

definition to_dataframe :: "table \<Rightarrow> frame" where
  "to_dataframe gdf =
     \<lparr>findex = index gdf,
      fcolumns =
        AList.update ''longitude'' (Column Float64 (map (\<lambda>p. FltV (fst p)) (geometry gdf)))
          (AList.update ''latitude'' (Column Float64 (map (\<lambda>p. FltV (snd p)) (geometry gdf)))
             (columns gdf))\<rparr>"

text \<open>\<^verbatim>\<open>'{0:d}'.format(i)\<close>: the decimal digits of a natural number.\<close>

definition digit_char :: "nat \<Rightarrow> char" where
  "digit_char d = char_of (48 + d)"

fun decimal :: "nat \<Rightarrow> string" where
  "decimal n = (if n < 10 then [digit_char n] else decimal (n div 10) @ [digit_char (n mod 10)])"

declare decimal.simps [simp del]

definition poly_x :: "nat \<Rightarrow> string" where
  "poly_x i = ''poly'' @ decimal i @ ''_x''"

definition poly_y :: "nat \<Rightarrow> string" where
  "poly_y i = ''poly'' @ decimal i @ ''_y''"

text \<open>
  \<^verbatim>\<open>coordinates(polygon)\<close> fills two float64 arrays from \<^verbatim>\<open>p['lon']\<close> and \<^verbatim>\<open>p['lat']\<close>
  of each point, in order; a point without one of the keys raises KeyError.
\<close>

fun coordinates :: "point list \<Rightarrow> error + (flt list \<times> flt list)" where
  "coordinates [] = Inr ([], [])"
| "coordinates (p # ps) =
     (case getitem p ''lon'' of Inl e \<Rightarrow> Inl e | Inr lon \<Rightarrow>
      case getitem p ''lat'' of Inl e \<Rightarrow> Inl e | Inr lat \<Rightarrow>
      case coordinates ps of Inl e \<Rightarrow> Inl e
      | Inr (x, y) \<Rightarrow> Inr (as_float64 lon # x, as_float64 lat # y))"

text \<open>
  Attribute sets are dictionaries. How an attribute is stored depends on the container
  library, so the writers take the setter as \<open>store\<close>: the netCDF and PyTables objects
  keep any Python value (\<open>setattr_any\<close>), h5py converts the value at once and raises
  TypeError when it has no HDF5 type (\<open>h5py_setitem\<close>, over the predicate \<open>storable\<close> of
  the values h5py can convert).
\<close>

type_synonym attrs = "(string \<times> attr_value) list"

type_synonym setter = "string \<Rightarrow> attr_value \<Rightarrow> attrs \<Rightarrow> error + attrs"

definition setattr_any :: setter where
  "setattr_any k v a = Inr (AList.update k v a)"

definition h5py_setitem :: "(attr_value \<Rightarrow> bool) \<Rightarrow> setter" where
  "h5py_setitem storable k v a = (if storable v then Inr (AList.update k v a) else Inl TypeError)"

text \<open>
  The file level attributes: \<^verbatim>\<open>fileID.name = attributes[key]\<close> for a list of
  (name, key) pairs, in order.
\<close>

fun set_file_attributes :: "setter \<Rightarrow> attributes \<Rightarrow> (string \<times> string) list \<Rightarrow> attrs \<Rightarrow> error + attrs" where
  "set_file_attributes store attributes [] a = Inr a"
| "set_file_attributes store attributes ((name, key) # rest) a =
     (case getitem attributes key of
        Inl e \<Rightarrow> Inl e
      | Inr (VarAttrs kvs) \<Rightarrow> Inl TypeError
      | Inr (FileAttr v) \<Rightarrow>
          (case store name v a of Inl e \<Rightarrow> Inl e
           | Inr a' \<Rightarrow> set_file_attributes store attributes rest a'))"

text \<open>
  The variable attributes: \<^verbatim>\<open>for att_key, att_val in attributes[key].items()\<close>.
\<close>

fun set_attributes :: "setter \<Rightarrow> (string \<times> attr_value) list \<Rightarrow> attrs \<Rightarrow> error + attrs" where
  "set_attributes store [] a = Inr a"
| "set_attributes store ((k, v) # kvs) a =
     (case store k v a of Inl e \<Rightarrow> Inl e | Inr a' \<Rightarrow> set_attributes store kvs a')"

text \<open>
  The processing parameters. \<^verbatim>\<open>kwargs['parameters'][p]\<close> raises TypeError when the
  parameters are \<^verbatim>\<open>None\<close> and KeyError when \<open>p\<close> is missing; the bare \<^verbatim>\<open>except\<close>
  swallows these and whatever the setter raises.
\<close>

definition SRparams :: "string list" where
  "SRparams = [''H_min_win'', ''atl08_class'', ''ats'', ''cnf'', ''cnt'', ''len'',
     ''maxi'', ''res'', ''sigma_r_max'', ''srt'']"

definition get_parameter :: "(string \<times> attr_value) list option \<Rightarrow> string \<Rightarrow> error + attr_value" where
  "get_parameter ps p = (case ps of None \<Rightarrow> Inl TypeError | Some d \<Rightarrow> getitem d p)"

definition try_set_parameter :: "setter \<Rightarrow> (string \<times> attr_value) list option \<Rightarrow> string \<Rightarrow> attrs \<Rightarrow> attrs" where
  "try_set_parameter store ps p a =
     (case get_parameter ps p of
        Inl e \<Rightarrow> a
      | Inr v \<Rightarrow> (case store p v a of Inl e \<Rightarrow> a | Inr a' \<Rightarrow> a'))"

fun set_parameters :: "setter \<Rightarrow> (string \<times> attr_value) list option \<Rightarrow> string list \<Rightarrow> attrs \<Rightarrow> attrs" where
  "set_parameters store ps [] a = a"
| "set_parameters store ps (p # rest) a =
     set_parameters store ps rest (try_set_parameter store ps p a)"

text \<open>
  The regions: \<^verbatim>\<open>for i, poly in enumerate(kwargs['regions'])\<close>, with \<open>i\<close> counted from
  the first argument.
\<close>

fun set_regions :: "setter \<Rightarrow> nat \<Rightarrow> point list list \<Rightarrow> attrs \<Rightarrow> error + attrs" where
  "set_regions store i [] a = Inr a"
| "set_regions store i (poly # rest) a =
     (case coordinates poly of Inl e \<Rightarrow> Inl e | Inr (lon, lat) \<Rightarrow>
      case store (poly_x i) (Numbers (map FltV lon)) a of Inl e \<Rightarrow> Inl e | Inr a1 \<Rightarrow>
      case store (poly_y i) (Numbers (map FltV lat)) a1 of Inl e \<Rightarrow> Inl e | Inr a2 \<Rightarrow>
      set_regions store (Suc i) rest a2)"

section \<open>Properties of the attribute schema\<close>

lemma schema_gt:
  "map_of (get_attributes now) ''gt'' = Some (VarAttrs
      [(''long_name'', Text ''Ground track identifier''),
       (''flag_values'', Numbers [IntV 10, IntV 20, IntV 30, IntV 40, IntV 50, IntV 60]),
       (''flag_meanings'', Text ''GT1L, GT1R, GT2L, GT2R, GT3L, GT3R''),
       (''valid_min'', Number (IntV 10)),
       (''valid_max'', Number (IntV 60))])"
  by (simp add: get_attributes_def)

lemma schema_pflags:
  "map_of (get_attributes now) ''pflags'' = Some (VarAttrs
      [(''long_name'', Text ''Processing Flags''),
       (''coordinates'', Text ''latitude longitude''),
       (''flag_values'', Numbers [IntV 0, IntV 1, IntV 2, IntV 4]),
       (''flag_meanings'',
          Text ''valid, spread too short, too few photons, max iterations reached''),
       (''valid_min'', Number (IntV 0)),
       (''valid_max'', Number (IntV 4))])"
  by (simp add: get_attributes_def)

lemma schema_entries:
  "list_all (\<lambda>k. is_var_entry (map_of (get_attributes now) k)) canonical_variables"
  by (simp add: get_attributes_def canonical_variables_def)

text \<open>
  Claim C9. Every call of \<^verbatim>\<open>get_attributes\<close>, whatever the clock says, returns a
  mapping with a variable entry for each canonical variable; the ground track entry
  pairs the flag values 10, 20, 30, 40, 50, 60 with GT1L, GT1R, GT2L, GT2R, GT3L, GT3R in
  that order, and the processing flag entry pairs 0, 1, 2, 4 with valid, spread too
  short, too few photons, max iterations reached in that order.
\<close>

theorem get_attributes_schema:
  "list_all (\<lambda>k. is_var_entry (map_of (get_attributes now) k)) canonical_variables
   \<and> length canonical_variables = 17
   \<and> (\<exists>e. schema_items (get_attributes now) ''gt'' = Inr e
        \<and> map_of e ''flag_values''
            = Some (Numbers [IntV 10, IntV 20, IntV 30, IntV 40, IntV 50, IntV 60])
        \<and> map_of e ''flag_meanings'' = Some (Text ''GT1L, GT1R, GT2L, GT2R, GT3L, GT3R'')
        \<and> flag_table e = Some
            [(IntV 10, ''GT1L''), (IntV 20, ''GT1R''), (IntV 30, ''GT2L''),
             (IntV 40, ''GT2R''), (IntV 50, ''GT3L''), (IntV 60, ''GT3R'')])
   \<and> (\<exists>e. schema_items (get_attributes now) ''pflags'' = Inr e
        \<and> map_of e ''flag_values'' = Some (Numbers [IntV 0, IntV 1, IntV 2, IntV 4])
        \<and> map_of e ''flag_meanings''
            = Some (Text ''valid, spread too short, too few photons, max iterations reached'')
        \<and> flag_table e = Some
            [(IntV 0, ''valid''), (IntV 1, ''spread too short''),
             (IntV 2, ''too few photons''), (IntV 4, ''max iterations reached'')])"
proof -
  have len: "length canonical_variables = 17"
    by (simp add: canonical_variables_def)
  have gt: "\<exists>e. schema_items (get_attributes now) ''gt'' = Inr e
        \<and> map_of e ''flag_values''
            = Some (Numbers [IntV 10, IntV 20, IntV 30, IntV 40, IntV 50, IntV 60])
        \<and> map_of e ''flag_meanings'' = Some (Text ''GT1L, GT1R, GT2L, GT2R, GT3L, GT3R'')
        \<and> flag_table e = Some
            [(IntV 10, ''GT1L''), (IntV 20, ''GT1R''), (IntV 30, ''GT2L''),
             (IntV 40, ''GT2R''), (IntV 50, ''GT3L''), (IntV 60, ''GT3R'')]"
    by (simp add: schema_gt schema_items_def flag_table_def)
  have pf: "\<exists>e. schema_items (get_attributes now) ''pflags'' = Inr e
        \<and> map_of e ''flag_values'' = Some (Numbers [IntV 0, IntV 1, IntV 2, IntV 4])
        \<and> map_of e ''flag_meanings''
            = Some (Text ''valid, spread too short, too few photons, max iterations reached'')
        \<and> flag_table e = Some
            [(IntV 0, ''valid''), (IntV 1, ''spread too short''),
             (IntV 2, ''too few photons''), (IntV 4, ''max iterations reached'')]"
    by (simp add: schema_pflags schema_items_def flag_table_def)
  from schema_entries len gt pf show ?thesis
    by blast
qed

end
